theory Spec2Isabelle
  imports Main
begin

section \<open>The Go library functions the collectors call\<close>

text \<open>
  The process collectors of \<^verbatim>\<open>cmd/ps\<close> are written against Go's \<^verbatim>\<open>strings\<close>,
  \<^verbatim>\<open>strconv\<close>, \<^verbatim>\<open>bufio\<close>, \<^verbatim>\<open>time\<close> and \<^verbatim>\<open>regexp\<close> packages. This section
  gives each library function that the collectors use a HOL function with the behaviour
  the Go documentation and sources describe. A Go \<^verbatim>\<open>string\<close> is a byte sequence, so it is
  a \<^typ>\<open>string\<close> here (one \<^typ>\<open>char\<close> per byte); an index result of \<^verbatim>\<open>-1\<close> is \<^term>\<open>None\<close>.
  Go's \<^verbatim>\<open>int\<close> and \<^verbatim>\<open>int64\<close> are 64 bits wide on every platform the tool builds for;
  they are \<^typ>\<open>int\<close> here, with the two's-complement wrap-around written out where
  the source does arithmetic.
\<close>

subsection \<open>64-bit arithmetic\<close>

definition wrap64 :: "int \<Rightarrow> int" where
  "wrap64 x = (x + 9223372036854775808) mod 18446744073709551616 - 9223372036854775808"

definition add64 :: "int \<Rightarrow> int \<Rightarrow> int" where
  "add64 a b = wrap64 (a + b)"

definition mul64 :: "int \<Rightarrow> int \<Rightarrow> int" where
  "mul64 a b = wrap64 (a * b)"

subsection \<open>Package strings\<close>

definition HasPrefix :: "string \<Rightarrow> string \<Rightarrow> bool" where
  "HasPrefix s p = (take (length p) s = p)"

definition TrimPrefix :: "string \<Rightarrow> string \<Rightarrow> string" where
  "TrimPrefix s p = (if HasPrefix s p then drop (length p) s else s)"

fun IndexByte :: "string \<Rightarrow> char \<Rightarrow> nat option" where
  "IndexByte [] c = None"
| "IndexByte (x # xs) c = (if x = c then Some 0 else map_option Suc (IndexByte xs c))"

definition LastIndexByte :: "string \<Rightarrow> char \<Rightarrow> nat option" where
  "LastIndexByte s c = map_option (\<lambda>i. length s - 1 - i) (IndexByte (rev s) c)"

fun IndexAny :: "string \<Rightarrow> string \<Rightarrow> nat option" where
  "IndexAny [] chars = None"
| "IndexAny (x # xs) chars =
     (if x \<in> set chars then Some 0 else map_option Suc (IndexAny xs chars))"

text \<open>\<^verbatim>\<open>strings.Split(s, sep)\<close> for a separator of one byte, which is the only way the
  collectors call it. The result is never empty: \<^verbatim>\<open>Split("", ":")\<close> is \<^verbatim>\<open>[""]\<close>.\<close>

fun Split :: "string \<Rightarrow> char \<Rightarrow> string list" where
  "Split [] c = [[]]"
| "Split (x # xs) c =
     (if x = c then [] # Split xs c
      else (case Split xs c of [] \<Rightarrow> [[x]] | y # ys \<Rightarrow> (x # y) # ys))"

text \<open>\<^verbatim>\<open>strings.SplitN(s, sep, n)\<close> for \<^verbatim>\<open>n \<ge> 0\<close> and a separator of one byte: at most
  \<open>n\<close> pieces, the last one the unsplit remainder.\<close>

fun SplitN :: "string \<Rightarrow> char \<Rightarrow> nat \<Rightarrow> string list" where
  "SplitN s c 0 = []"
| "SplitN s c (Suc 0) = [s]"
| "SplitN s c (Suc (Suc n)) =
     (case IndexByte s c of
        None \<Rightarrow> [s]
      | Some i \<Rightarrow> take i s # SplitN (drop (Suc i) s) c (Suc n))"

fun Join :: "string list \<Rightarrow> string \<Rightarrow> string" where
  "Join [] sep = []"
| "Join [x] sep = x"
| "Join (x # y # ys) sep = x @ sep @ Join (y # ys) sep"

text \<open>\<^verbatim>\<open>strings.ReplaceAll(s, old, "")\<close> for an \<^verbatim>\<open>old\<close> of one byte.\<close>

definition ReplaceAll :: "string \<Rightarrow> char \<Rightarrow> string" where
  "ReplaceAll s old = filter (\<lambda>x. x \<noteq> old) s"

definition TrimRight :: "string \<Rightarrow> string \<Rightarrow> string" where
  "TrimRight s cutset = rev (dropWhile (\<lambda>x. x \<in> set cutset) (rev s))"

text \<open>
  White space is Unicode's \<^verbatim>\<open>White_Space\<close> property (\<^verbatim>\<open>unicode.IsSpace\<close>), read from the
  UTF-8 bytes: the six ASCII characters, U+0085 and U+00A0 (two bytes), and U+1680,
  U+2000 to U+200A, U+2028, U+2029, U+202F, U+205F and U+3000 (three bytes). These
  encodings start with a lead byte, so scanning byte by byte finds the same white space
  as decoding rune by rune.
\<close>

definition space1 :: "char \<Rightarrow> bool" where
  "space1 c = (c = CHR 0x09 \<or> c = CHR 0x0A \<or> c = CHR 0x0B \<or> c = CHR 0x0C
     \<or> c = CHR 0x0D \<or> c = CHR 0x20)"

definition space2 :: "char \<Rightarrow> char \<Rightarrow> bool" where
  "space2 c d = (c = CHR 0xC2 \<and> (d = CHR 0x85 \<or> d = CHR 0xA0))"

definition space3 :: "char \<Rightarrow> char \<Rightarrow> char \<Rightarrow> bool" where
  "space3 c d e =
     ((c = CHR 0xE1 \<and> d = CHR 0x9A \<and> e = CHR 0x80)
    \<or> (c = CHR 0xE2 \<and> d = CHR 0x80
         \<and> ((128 \<le> (of_char e :: nat) \<and> (of_char e :: nat) \<le> 138)
            \<or> e = CHR 0xA8 \<or> e = CHR 0xA9 \<or> e = CHR 0xAF))
    \<or> (c = CHR 0xE2 \<and> d = CHR 0x81 \<and> e = CHR 0x9F)
    \<or> (c = CHR 0xE3 \<and> d = CHR 0x80 \<and> e = CHR 0x80))"

text \<open>The number of bytes of the white-space rune at the head of a string, 0 if the
  string does not start with one.\<close>

fun spaceWidth :: "string \<Rightarrow> nat" where
  "spaceWidth [] = 0"
| "spaceWidth [c] = (if space1 c then 1 else 0)"
| "spaceWidth [c, d] = (if space1 c then 1 else if space2 c d then 2 else 0)"
| "spaceWidth (c # d # e # _) =
     (if space1 c then 1 else if space2 c d then 2 else if space3 c d e then 3 else 0)"

text \<open>The same at the end of a string, on the reversed string.\<close>

fun spaceWidthRev :: "string \<Rightarrow> nat" where
  "spaceWidthRev [] = 0"
| "spaceWidthRev [e] = (if space1 e then 1 else 0)"
| "spaceWidthRev [e, d] = (if space1 e then 1 else if space2 d e then 2 else 0)"
| "spaceWidthRev (e # d # c # _) =
     (if space1 e then 1 else if space2 d e then 2 else if space3 c d e then 3 else 0)"

text \<open>Trimming: the first argument counts the bytes still to drop of a white-space
  rune that has been recognised.\<close>

fun trimLeft :: "nat \<Rightarrow> string \<Rightarrow> string" where
  "trimLeft k [] = []"
| "trimLeft (Suc k) (c # cs) = trimLeft k cs"
| "trimLeft 0 (c # cs) =
     (if spaceWidth (c # cs) = 0 then c # cs else trimLeft (spaceWidth (c # cs) - 1) cs)"

fun trimRightRev :: "nat \<Rightarrow> string \<Rightarrow> string" where
  "trimRightRev k [] = []"
| "trimRightRev (Suc k) (c # cs) = trimRightRev k cs"
| "trimRightRev 0 (c # cs) =
     (if spaceWidthRev (c # cs) = 0 then c # cs
      else trimRightRev (spaceWidthRev (c # cs) - 1) cs)"

definition TrimSpace :: "string \<Rightarrow> string" where
  "TrimSpace s = rev (trimRightRev 0 (rev (trimLeft 0 s)))"

text \<open>\<^verbatim>\<open>strings.Fields\<close>: the maximal runs of bytes between white space. The second
  argument is the field being read.\<close>

fun fieldsFrom :: "nat \<Rightarrow> string \<Rightarrow> string \<Rightarrow> string list" where
  "fieldsFrom k cur [] = (if cur = [] then [] else [cur])"
| "fieldsFrom (Suc k) cur (c # cs) = fieldsFrom k cur cs"
| "fieldsFrom 0 cur (c # cs) =
     (if spaceWidth (c # cs) = 0 then fieldsFrom 0 (cur @ [c]) cs
      else (if cur = [] then [] else [cur]) @ fieldsFrom (spaceWidth (c # cs) - 1) [] cs)"

definition Fields :: "string \<Rightarrow> string list" where
  "Fields s = fieldsFrom 0 [] s"

subsection \<open>Package strconv\<close>

datatype numError = ErrSyntax | ErrRange

definition isDigit :: "char \<Rightarrow> bool" where
  "isDigit c = (48 \<le> (of_char c :: nat) \<and> (of_char c :: nat) \<le> 57)"

definition digitVal :: "char \<Rightarrow> int" where
  "digitVal c = int (of_char c) - 48"

text \<open>The digit loop of \<^verbatim>\<open>strconv.ParseUint\<close> in base 10: it reads from the left, and
  stops at the first byte that is not a digit (a syntax error, value 0) or at the first
  digit that takes the value past the largest one allowed (a range error, whose value is
  that largest one).\<close>

fun parseUintFrom :: "int \<Rightarrow> int \<Rightarrow> string \<Rightarrow> int \<times> numError option" where
  "parseUintFrom maxVal n [] = (n, None)"
| "parseUintFrom maxVal n (c # cs) =
     (if \<not> isDigit c then (0, Some ErrSyntax)
      else if n * 10 + digitVal c > maxVal then (maxVal, Some ErrRange)
      else parseUintFrom maxVal (n * 10 + digitVal c) cs)"

text \<open>\<^verbatim>\<open>strconv.ParseUint(s, 10, bitSize)\<close>.\<close>

definition ParseUint :: "string \<Rightarrow> nat \<Rightarrow> int \<times> numError option" where
  "ParseUint s bitSize =
     (if s = [] then (0, Some ErrSyntax) else parseUintFrom (2 ^ bitSize - 1) 0 s)"

text \<open>\<^verbatim>\<open>strconv.ParseInt(s, 10, bitSize)\<close>: an optional sign, then \<^verbatim>\<open>ParseUint\<close> on
  64 bits; a value out of range is replaced by the nearest bound.\<close>

definition ParseInt :: "string \<Rightarrow> nat \<Rightarrow> int \<times> numError option" where
  "ParseInt s bitSize =
     (if s = [] then (0, Some ErrSyntax)
      else
        let neg = (hd s = CHR ''-'');
            body = (if hd s = CHR ''+'' \<or> hd s = CHR ''-'' then tl s else s);
            cutoff = (2::int) ^ (bitSize - 1)
        in case ParseUint body 64 of
             (_, Some ErrSyntax) \<Rightarrow> (0, Some ErrSyntax)
           | (un, _) \<Rightarrow>
               if \<not> neg \<and> un \<ge> cutoff then (cutoff - 1, Some ErrRange)
               else if neg \<and> un > cutoff then (- cutoff, Some ErrRange)
               else (if neg then - un else un, None))"

text \<open>\<^verbatim>\<open>strconv.Atoi\<close> gives the results of \<^verbatim>\<open>ParseInt(s, 10, 0)\<close>, with \<^verbatim>\<open>int\<close> 64 bits wide.\<close>

definition Atoi :: "string \<Rightarrow> int \<times> numError option" where
  "Atoi s = ParseInt s 64"

text \<open>\<^verbatim>\<open>strconv.Itoa\<close>: the decimal digits, most significant first, after a minus sign
  for a negative number.\<close>

definition digitChar :: "nat \<Rightarrow> char" where
  "digitChar d = ''0123456789'' ! d"

fun decimal :: "nat \<Rightarrow> string" where
  "decimal n = (if n < 10 then [digitChar n] else decimal (n div 10) @ [digitChar (n mod 10)])"

declare decimal.simps [simp del]

definition Itoa :: "int \<Rightarrow> string" where
  "Itoa i = (if i < 0 then CHR ''-'' # decimal (nat (- i)) else decimal (nat i))"

text \<open>Go's integer division truncates towards zero.\<close>

definition quot :: "int \<Rightarrow> int \<Rightarrow> int" where
  "quot a b = sgn a * sgn b * (\<bar>a\<bar> div \<bar>b\<bar>)"

definition rem :: "int \<Rightarrow> int \<Rightarrow> int" where
  "rem a b = a - quot a b * b"

subsection \<open>Package bufio: a Scanner over lines\<close>

text \<open>
  \<^verbatim>\<open>bufio.Scanner\<close> with the default split function yields the lines of its input
  without the line end (\<^verbatim>\<open>\n\<close>, or \<^verbatim>\<open>\r\n\<close>); a last line without a line end counts
  if it is not empty. A line must fit the scanner's buffer together with its line end:
  at the first line of \<open>maxTok\<close> bytes or more \<^verbatim>\<open>Scan\<close> returns false and \<^verbatim>\<open>Err\<close> is
  \<^verbatim>\<open>ErrTooLong\<close>. The buffer holds 65536 bytes unless the program sets another size.
\<close>

definition dropCR :: "string \<Rightarrow> string" where
  "dropCR l = (if l \<noteq> [] \<and> last l = CHR 0x0D then butlast l else l)"

definition rawLines :: "string \<Rightarrow> string list" where
  "rawLines s = (let ps = Split s (CHR 0x0A) in if last ps = [] then butlast ps else ps)"

definition scanLines :: "nat \<Rightarrow> string \<Rightarrow> string list" where
  "scanLines maxTok s = map dropCR (takeWhile (\<lambda>l. length l < maxTok) (rawLines s))"

definition scanTooLong :: "nat \<Rightarrow> string \<Rightarrow> bool" where
  "scanTooLong maxTok s = list_ex (\<lambda>l. \<not> length l < maxTok) (rawLines s)"

definition MaxScanTokenSize :: nat where
  "MaxScanTokenSize = 65536"

subsection \<open>Package time\<close>

text \<open>
  A \<^verbatim>\<open>time.Time\<close> is an instant: seconds since the Unix epoch and nanoseconds within
  the second. The location of a \<^verbatim>\<open>Time\<close> only matters when it is printed, and the
  collectors print in UTC. The zero \<^verbatim>\<open>Time\<close> is January 1 of year 1, 00:00:00 UTC.
  A \<^verbatim>\<open>time.Duration\<close> is an \<^verbatim>\<open>int64\<close> count of nanoseconds.
\<close>

record time =
  unixSec :: int
  nsec :: int

definition zeroTime :: time where
  "zeroTime = \<lparr>unixSec = - 62135596800, nsec = 0\<rparr>"

definition IsZero :: "time \<Rightarrow> bool" where
  "IsZero t = (unixSec t = - 62135596800 \<and> nsec t = 0)"

text \<open>\<^verbatim>\<open>time.Unix(sec, nsec)\<close>.\<close>

definition Unix :: "int \<Rightarrow> int \<Rightarrow> time" where
  "Unix sec ns = \<lparr>unixSec = sec + ns div 1000000000, nsec = ns mod 1000000000\<rparr>"

definition UnixNano :: "time \<Rightarrow> int" where
  "UnixNano t = wrap64 (unixSec t * 1000000000 + nsec t)"

text \<open>\<^verbatim>\<open>t.Sub(u)\<close>: the difference in nanoseconds, or the largest or smallest
  \<^verbatim>\<open>Duration\<close> when it does not fit.\<close>

definition Sub :: "time \<Rightarrow> time \<Rightarrow> int" where
  "Sub t u =
     (let d = (unixSec t - unixSec u) * 1000000000 + (nsec t - nsec u) in
      if d > 9223372036854775807 then 9223372036854775807
      else if d < - 9223372036854775808 then - 9223372036854775808
      else d)"

text \<open>\<^verbatim>\<open>t.Add(d)\<close>.\<close>

definition Add :: "time \<Rightarrow> int \<Rightarrow> time" where
  "Add t d = Unix (unixSec t) (nsec t + d)"

text \<open>\<^verbatim>\<open>norm\<close> of package time: \<open>hi * base + lo\<close> with \<open>lo\<close> brought into
  \<open>0 .. base - 1\<close>.\<close>

definition norm :: "int \<Rightarrow> int \<Rightarrow> int \<Rightarrow> int \<times> int" where
  "norm hi lo base =
     (let (hi1, lo1) =
            (if lo < 0 then
               (let n = quot (- lo - 1) base + 1 in (hi - n, lo + n * base))
             else (hi, lo))
      in if lo1 \<ge> base then
           (let n = quot lo1 base in (hi1 + n, lo1 - n * base))
         else (hi1, lo1))"

definition isLeap :: "int \<Rightarrow> bool" where
  "isLeap year = (year mod 4 = 0 \<and> (year mod 100 \<noteq> 0 \<or> year mod 400 = 0))"

definition daysBefore :: "int list" where
  "daysBefore = [0, 31, 59, 90, 120, 151, 181, 212, 243, 273, 304, 334, 365]"

text \<open>The days from January 1, 1970 to January 1 of a year, in the proleptic Gregorian
  calendar.\<close>

definition daysSinceEpoch :: "int \<Rightarrow> int" where
  "daysSinceEpoch year =
     (let y = year - 1 in 365 * (year - 1970) + (y div 4 - y div 100 + y div 400) - 477)"

text \<open>\<^verbatim>\<open>time.Date(year, month, day, hour, min, sec, nsec, loc)\<close> for a location with a
  fixed offset, given in seconds east of UTC (\<^verbatim>\<open>time.FixedZone\<close>): the fields are
  normalised as Go does, and the offset is taken off the wall-clock time.\<close>

definition Date :: "int \<Rightarrow> int \<Rightarrow> int \<Rightarrow> int \<Rightarrow> int \<Rightarrow> int \<Rightarrow> int \<Rightarrow> int \<Rightarrow> time" where
  "Date year month day hour minute sec ns offset =
     (let (year1, m) = norm year (month - 1) 12;
          (sec1, ns1) = norm sec ns 1000000000;
          (min1, sec2) = norm minute sec1 60;
          (hour1, min2) = norm hour min1 60;
          (day1, hour2) = norm day hour1 24;
          d = daysSinceEpoch year1 + daysBefore ! nat m
              + (if isLeap year1 \<and> m + 1 \<ge> 3 then 1 else 0) + (day1 - 1)
      in \<lparr>unixSec = d * 86400 + hour2 * 3600 + min2 * 60 + sec2 - offset, nsec = ns1\<rparr>)"

text \<open>Printing in UTC with the layout \<^verbatim>\<open>time.RFC3339\<close>: the civil date of a count of
  days since January 1, 1970 (the year starting in March, in eras of 400 years), and the
  digits of each field.\<close>

definition dayOfEra :: "int \<Rightarrow> int" where
  "dayOfEra days = (days + 719468) mod 146097"

definition yearOfEra :: "int \<Rightarrow> int" where
  "yearOfEra days =
     (dayOfEra days - dayOfEra days div 1460 + dayOfEra days div 36524
        - dayOfEra days div 146096) div 365"

definition dayOfYear :: "int \<Rightarrow> int" where
  "dayOfYear days =
     dayOfEra days - (365 * yearOfEra days + yearOfEra days div 4 - yearOfEra days div 100)"

definition monthFromMarch :: "int \<Rightarrow> int" where
  "monthFromMarch days = (5 * dayOfYear days + 2) div 153"

definition civilMonth :: "int \<Rightarrow> int" where
  "civilMonth days =
     (if monthFromMarch days < 10 then monthFromMarch days + 3 else monthFromMarch days - 9)"

definition civilDay :: "int \<Rightarrow> int" where
  "civilDay days = dayOfYear days - (153 * monthFromMarch days + 2) div 5 + 1"

definition civilYear :: "int \<Rightarrow> int" where
  "civilYear days =
     yearOfEra days + (days + 719468) div 146097 * 400 + (if civilMonth days \<le> 2 then 1 else 0)"

definition appendInt :: "int \<Rightarrow> nat \<Rightarrow> string" where
  "appendInt x width =
     (if x < 0 then ''-'' else [])
     @ replicate (width - length (decimal (nat \<bar>x\<bar>))) (CHR ''0'') @ decimal (nat \<bar>x\<bar>)"

definition FormatRFC3339 :: "time \<Rightarrow> string" where
  "FormatRFC3339 t =
     appendInt (civilYear (unixSec t div 86400)) 4 @ ''-''
     @ appendInt (civilMonth (unixSec t div 86400)) 2 @ ''-''
     @ appendInt (civilDay (unixSec t div 86400)) 2 @ ''T''
     @ appendInt (unixSec t mod 86400 div 3600) 2 @ '':''
     @ appendInt (unixSec t mod 86400 mod 3600 div 60) 2 @ '':''
     @ appendInt (unixSec t mod 86400 mod 60) 2 @ ''Z''"

subsection \<open>Package regexp: the one pattern of the collector\<close>

text \<open>
  \<^verbatim>\<open>containerIDRe.FindString\<close> for the pattern \<^verbatim>\<open>(?i)[a-f0-9]{12,64}\<close>: the leftmost
  match, as long as the pattern allows. A match starts at the first position that is
  followed by twelve hexadecimal digits and takes up to 64 of the digits that follow;
  without a match the result is the empty string.
\<close>

definition isHex :: "char \<Rightarrow> bool" where
  "isHex c = (c \<in> set ''0123456789abcdefABCDEF'')"

fun FindString :: "string \<Rightarrow> string" where
  "FindString [] = []"
| "FindString (c # cs) =
     (if length (takeWhile isHex (c # cs)) \<ge> 12 then take 64 (takeWhile isHex (c # cs))
      else FindString cs)"

subsection \<open>Errors and panics\<close>

text \<open>
  A Go function of result type \<^verbatim>\<open>(T, error)\<close> returns a value or an error; an index out
  of range panics, and no collector recovers from a panic, so the program stops.
\<close>

datatype error =
    OSError string
  | ErrorString string
  | EOF
  | ErrTooLong
  | UnknownIdError string
  | SyntaxError string

datatype 'a result = Ok 'a | Err error | Panic

subsection \<open>Package encoding/json\<close>

text \<open>
  The value \<^verbatim>\<open>json.Decoder.Decode\<close> stores in an \<^verbatim>\<open>any\<close> after \<^verbatim>\<open>UseNumber()\<close>: \<^verbatim>\<open>nil\<close>, a
  \<^verbatim>\<open>bool\<close>, a \<^verbatim>\<open>json.Number\<close> (the digits as written), a \<^verbatim>\<open>string\<close>, a \<^verbatim>\<open>[]any\<close> or a
  \<^verbatim>\<open>map[string]any\<close>. With \<^verbatim>\<open>UseNumber\<close> no number is decoded as a \<^verbatim>\<open>float64\<close>. An object
  is the list of its members in the order read; a later member of the same name
  replaces an earlier one, so a key is looked up from the end.
\<close>

datatype json =
    JNull
  | JBool bool
  | JNumber string
  | JString string
  | JArray "json list"
  | JObject "(string \<times> json) list"

definition objGet :: "(string \<times> json) list \<Rightarrow> string \<Rightarrow> json option" where
  "objGet m k = map_of (rev m) k"

text \<open>
  A model of the decoder, for running the collector on concrete outputs. \<^verbatim>\<open>Decode\<close>
  reads one JSON value from the front of the input, after white space, and leaves the
  rest unread; an input without a value is \<^verbatim>\<open>io.EOF\<close>. The grammar is that of RFC 8259.
  The first argument of the parsing functions bounds the number of calls: a list that
  loses an element at each call (twice the length of the input is enough, each call
  reading a byte before the next). The second is the nesting depth, which the decoder
  limits to 10000.
\<close>

definition jsonSpace :: "char \<Rightarrow> bool" where
  "jsonSpace c = (c = CHR '' '' \<or> c = CHR 0x09 \<or> c = CHR 0x0D \<or> c = CHR 0x0A)"

definition skipSpace :: "string \<Rightarrow> string" where
  "skipSpace s = dropWhile jsonSpace s"

definition hexVal :: "char \<Rightarrow> nat option" where
  "hexVal c =
     (let n = (of_char c :: nat) in
      if 48 \<le> n \<and> n \<le> 57 then Some (n - 48)
      else if 97 \<le> n \<and> n \<le> 102 then Some (n - 87)
      else if 65 \<le> n \<and> n \<le> 70 then Some (n - 55)
      else None)"

definition hex4 :: "string \<Rightarrow> nat option" where
  "hex4 s =
     (case map hexVal (take 4 s) of
        [Some a, Some b, Some c, Some d] \<Rightarrow> Some (((a * 16 + b) * 16 + c) * 16 + d)
      | _ \<Rightarrow> None)"

text \<open>\<^verbatim>\<open>utf8.AppendRune\<close> for a code point that is not a surrogate.\<close>

definition encodeRune :: "nat \<Rightarrow> string" where
  "encodeRune r =
     (if r < 128 then [char_of r]
      else if r < 2048 then [char_of (192 + r div 64), char_of (128 + r mod 64)]
      else if r < 65536 then
        [char_of (224 + r div 4096), char_of (128 + r div 64 mod 64), char_of (128 + r mod 64)]
      else
        [char_of (240 + r div 262144), char_of (128 + r div 4096 mod 64),
         char_of (128 + r div 64 mod 64), char_of (128 + r mod 64)])"

definition isSurrogate :: "nat \<Rightarrow> bool" where
  "isSurrogate r = (55296 \<le> r \<and> r < 57344)"

text \<open>The number of bytes of the well-formed UTF-8 sequence at the head of a string, 0
  if there is none.\<close>

definition cont :: "char \<Rightarrow> bool" where
  "cont c = (128 \<le> (of_char c :: nat) \<and> (of_char c :: nat) \<le> 191)"

fun runeWidth :: "string \<Rightarrow> nat" where
  "runeWidth [] = 0"
| "runeWidth (c # cs) =
     (let b = (of_char c :: nat);
          b1 = (case cs of [] \<Rightarrow> 0 | d # _ \<Rightarrow> (of_char d :: nat))
      in
      if b < 128 then 1
      else if 194 \<le> b \<and> b \<le> 223 then (if list_all cont (take 1 cs) \<and> length cs \<ge> 1 then 2 else 0)
      else if 224 \<le> b \<and> b \<le> 239 then
        (if length cs \<ge> 2 \<and> list_all cont (take 2 cs)
            \<and> (if b = 224 then 160 \<le> b1 else True) \<and> (if b = 237 then b1 \<le> 159 else True)
         then 3 else 0)
      else if 240 \<le> b \<and> b \<le> 244 then
        (if length cs \<ge> 3 \<and> list_all cont (take 3 cs)
            \<and> (if b = 240 then 144 \<le> b1 else True) \<and> (if b = 244 then b1 \<le> 143 else True)
         then 4 else 0)
      else 0)"

text \<open>The characters of a string literal after its opening quote: the decoded string
  and the input after the closing quote. An escaped surrogate that is not followed by its
  partner, and a byte that is not well-formed UTF-8, become U+FFFD.\<close>

fun stringBody :: "'a list \<Rightarrow> string \<Rightarrow> string \<Rightarrow> error + string \<times> string" where
  "stringBody [] acc s = Inl (SyntaxError ''out of fuel'')"
| "stringBody (x # n) acc [] = Inl (SyntaxError ''unexpected end of JSON input'')"
| "stringBody (x # n) acc (c # cs) =
     (if c = CHR 0x22 then Inr (acc, cs)
      else if (of_char c :: nat) < 32 then Inl (SyntaxError ''invalid character in string literal'')
      else if c = CHR 0x5C then
        (case cs of
           [] \<Rightarrow> Inl (SyntaxError ''unexpected end of JSON input'')
         | e # es \<Rightarrow>
             if e = CHR 0x22 \<or> e = CHR 0x5C \<or> e = CHR ''/'' then stringBody n (acc @ [e]) es
             else if e = CHR ''b'' then stringBody n (acc @ [CHR 0x08]) es
             else if e = CHR ''f'' then stringBody n (acc @ [CHR 0x0C]) es
             else if e = CHR ''n'' then stringBody n (acc @ [CHR 0x0A]) es
             else if e = CHR ''r'' then stringBody n (acc @ [CHR 0x0D]) es
             else if e = CHR ''t'' then stringBody n (acc @ [CHR 0x09]) es
             else if e = CHR ''u'' then
               (case hex4 es of
                  None \<Rightarrow> Inl (SyntaxError ''invalid character in hexadecimal character escape'')
                | Some r \<Rightarrow>
                    if isSurrogate r then
                      (case (if take 2 (drop 4 es) = [CHR 0x5C, CHR ''u''] then hex4 (drop 6 es)
                             else None) of
                         Some r2 \<Rightarrow>
                           if r < 56320 \<and> 56320 \<le> r2 \<and> r2 < 57344
                           then stringBody n
                                  (acc @ encodeRune (65536 + (r - 55296) * 1024 + (r2 - 56320)))
                                  (drop 10 es)
                           else stringBody n (acc @ [CHR 0xEF, CHR 0xBF, CHR 0xBD]) (drop 4 es)
                       | None \<Rightarrow> stringBody n (acc @ [CHR 0xEF, CHR 0xBF, CHR 0xBD]) (drop 4 es))
                    else stringBody n (acc @ encodeRune r) (drop 4 es))
             else Inl (SyntaxError ''invalid character in string escape code''))
      else if runeWidth (c # cs) = 0 then stringBody n (acc @ [CHR 0xEF, CHR 0xBF, CHR 0xBD]) cs
      else stringBody n (acc @ take (runeWidth (c # cs)) (c # cs))
             (drop (runeWidth (c # cs)) (c # cs)))"

text \<open>A number literal at the head of the input: its text and the rest.\<close>

definition numberLiteral :: "string \<Rightarrow> error + string \<times> string" where
  "numberLiteral s =
     (let sign = (if HasPrefix s ''-'' then ''-'' else []);
          s1 = drop (length sign) s;
          ip = (if HasPrefix s1 ''0'' then ''0'' else takeWhile isDigit s1);
          s2 = drop (length ip) s1;
          fp = (if HasPrefix s2 ''.'' then CHR ''.'' # takeWhile isDigit (drop 1 s2) else []);
          s3 = drop (length fp) s2;
          e1 = (if s3 \<noteq> [] \<and> (hd s3 = CHR ''e'' \<or> hd s3 = CHR ''E'') then [hd s3] else []);
          s4 = drop (length e1) s3;
          es = (if e1 \<noteq> [] \<and> s4 \<noteq> [] \<and> (hd s4 = CHR ''+'' \<or> hd s4 = CHR ''-'')
                then [hd s4] else []);
          s5 = drop (length es) s4;
          ed = (if e1 \<noteq> [] then takeWhile isDigit s5 else []);
          s6 = drop (length ed) s5
      in if ip = [] \<or> length fp = 1 \<or> (e1 \<noteq> [] \<and> ed = [])
         then Inl (SyntaxError ''invalid character in numeric literal'')
         else Inr (sign @ ip @ fp @ e1 @ es @ ed, s6))"

fun parseValue :: "'a list \<Rightarrow> nat \<Rightarrow> string \<Rightarrow> error + json \<times> string"
  and parseElements :: "'a list \<Rightarrow> nat \<Rightarrow> json list \<Rightarrow> string \<Rightarrow> error + json \<times> string"
  and parseMembers :: "'a list \<Rightarrow> nat \<Rightarrow> (string \<times> json) list \<Rightarrow> string \<Rightarrow> error + json \<times> string"
where
  "parseValue [] depth s = Inl (SyntaxError ''out of fuel'')"
| "parseValue (x # n) depth s =
     (case skipSpace s of
        [] \<Rightarrow> Inl (SyntaxError ''unexpected end of JSON input'')
      | c # cs \<Rightarrow>
          if c = CHR ''['' then
            (if depth \<ge> 10000 then Inl (SyntaxError ''exceeded max depth'')
             else (case skipSpace cs of
                     [] \<Rightarrow> Inl (SyntaxError ''unexpected end of JSON input'')
                   | d # ds \<Rightarrow> if d = CHR '']'' then Inr (JArray [], ds)
                               else parseElements n (Suc depth) [] cs))
          else if c = CHR ''{'' then
            (if depth \<ge> 10000 then Inl (SyntaxError ''exceeded max depth'')
             else (case skipSpace cs of
                     [] \<Rightarrow> Inl (SyntaxError ''unexpected end of JSON input'')
                   | d # ds \<Rightarrow> if d = CHR ''}'' then Inr (JObject [], ds)
                               else parseMembers n (Suc depth) [] cs))
          else if c = CHR 0x22 then
            (case stringBody (c # cs) [] cs of
               Inl e \<Rightarrow> Inl e
             | Inr (str, rest) \<Rightarrow> Inr (JString str, rest))
          else if HasPrefix (c # cs) ''null'' then Inr (JNull, drop 4 (c # cs))
          else if HasPrefix (c # cs) ''true'' then Inr (JBool True, drop 4 (c # cs))
          else if HasPrefix (c # cs) ''false'' then Inr (JBool False, drop 5 (c # cs))
          else if c = CHR ''-'' \<or> isDigit c then
            (case numberLiteral (c # cs) of
               Inl e \<Rightarrow> Inl e
             | Inr (lit, rest) \<Rightarrow> Inr (JNumber lit, rest))
          else Inl (SyntaxError ''invalid character looking for beginning of value''))"
| "parseElements [] depth acc s = Inl (SyntaxError ''out of fuel'')"
| "parseElements (x # n) depth acc s =
     (case parseValue n depth s of
        Inl e \<Rightarrow> Inl e
      | Inr (v, rest) \<Rightarrow>
          (case skipSpace rest of
             [] \<Rightarrow> Inl (SyntaxError ''unexpected end of JSON input'')
           | c # cs \<Rightarrow>
               if c = CHR '','' then parseElements n depth (acc @ [v]) cs
               else if c = CHR '']'' then Inr (JArray (acc @ [v]), cs)
               else Inl (SyntaxError ''invalid character after array element'')))"
| "parseMembers [] depth acc s = Inl (SyntaxError ''out of fuel'')"
| "parseMembers (x # n) depth acc s =
     (case skipSpace s of
        [] \<Rightarrow> Inl (SyntaxError ''unexpected end of JSON input'')
      | q # qs \<Rightarrow>
          if q \<noteq> CHR 0x22 then
            Inl (SyntaxError ''invalid character looking for beginning of object key string'')
          else
            (case stringBody (q # qs) [] qs of
               Inl e \<Rightarrow> Inl e
             | Inr (key, rest) \<Rightarrow>
                 (case skipSpace rest of
                    [] \<Rightarrow> Inl (SyntaxError ''unexpected end of JSON input'')
                  | c # cs \<Rightarrow>
                      if c \<noteq> CHR '':'' then
                        Inl (SyntaxError ''invalid character after object key'')
                      else
                        (case parseValue n depth cs of
                           Inl e \<Rightarrow> Inl e
                         | Inr (v, rest2) \<Rightarrow>
                             (case skipSpace rest2 of
                                [] \<Rightarrow> Inl (SyntaxError ''unexpected end of JSON input'')
                              | d # ds \<Rightarrow>
                                  if d = CHR '','' then parseMembers n depth (acc @ [(key, v)]) ds
                                  else if d = CHR ''}'' then Inr (JObject (acc @ [(key, v)]), ds)
                                  else Inl (SyntaxError
                                         ''invalid character after object key:value pair''))))))"

definition jsonDecode :: "string \<Rightarrow> error + json" where
  "jsonDecode s =
     (if skipSpace s = [] then Inl EOF
      else (case parseValue (s @ s @ [CHR 0x00, CHR 0x00]) 0 s of Inl e \<Rightarrow> Inl e | Inr (v, _) \<Rightarrow> Inr v))"

section \<open>The process record\<close>

text \<open>
  \<^verbatim>\<open>Process\<close> of \<^verbatim>\<open>ps.go\<close>, the record every collector fills. A Go pointer field is an
  \<^typ>\<open>'a option\<close>, \<^verbatim>\<open>nil\<close> being \<^term>\<open>None\<close>. Three fields are left out, which no
  property below reads: \<^verbatim>\<open>CPUUserSeconds\<close> and \<^verbatim>\<open>CPUSystemSeconds\<close> (quotients of
  \<^verbatim>\<open>float64\<close>), and \<^verbatim>\<open>IO\<close> (read with \<^verbatim>\<open>fmt.Sscanf\<close> on Linux). The fields of
  \<^verbatim>\<open>ProcNamespaces\<close> carry the prefix \<open>Ns\<close> where the name is a field of \<^verbatim>\<open>Process\<close> too.
\<close>

record ProcNamespaces =
  Mnt :: string
  NsPID :: string
  Net :: string
  UTS :: string
  IPC :: string
  NsUser :: string
  NsCgroup :: string

record Process =
  PID :: int
  PPID :: int
  UID :: int
  GID :: int
  User :: string
  Group :: string
  State :: string
  TTY :: string
  Comm :: string
  Command :: string
  Exe :: string
  Cwd :: string
  MemRSSBytes :: int
  MemVMSBytes :: int
  MemSwapBytes :: int
  Threads :: "int option"
  Nice :: "int option"
  Priority :: "int option"
  StartTime :: string
  StartTimeUnixNs :: int
  ElapsedSeconds :: "int option"
  Cgroup :: "string option"
  Cgroups :: "string list option"
  NS :: "ProcNamespaces option"
  ContainerID :: "string option"
  SELinuxLabel :: "string option"

section \<open>The Linux collector\<close>

text \<open>
  What the collector reads of the machine: the directory listing, the files and symbolic
  links under \<^verbatim>\<open>/proc\<close>, the identity database, the clock-tick frequency and the clock.
  \<^verbatim>\<open>Seconds\<close> stands for \<^verbatim>\<open>int64(d.Seconds())\<close> on a duration \<open>d\<close>, a \<^verbatim>\<open>float64\<close>
  computation that is not spelled out here.
\<close>

record dirEntry =
  entryName :: string
  entryIsDir :: bool

record linuxHost =
  ReadDir :: "string \<Rightarrow> error + dirEntry list"
  ReadFile :: "string \<Rightarrow> error + string"
  Readlink :: "string \<Rightarrow> error + string"
  LookupId :: "string \<Rightarrow> error + string"
  LookupGroupId :: "string \<Rightarrow> error + string"
  SysconfClkTck :: "error + int"
  Now :: time
  Seconds :: "int \<Rightarrow> int"

text \<open>\<^verbatim>\<open>filepath.Join\<close> on a clean directory and a name.\<close>

definition pathJoin :: "string \<Rightarrow> string \<Rightarrow> string" where
  "pathJoin dir name = dir @ ''/'' @ name"

record procStat =
  ppid :: int
  state :: string
  comm :: string
  utime :: int
  stime :: int
  starttime :: int
  priority :: int
  nice :: int
  numThreads :: int
  ttyNr :: int

text \<open>
  \<^verbatim>\<open>readProcStat\<close>. The source asks for 20 fields after the closing parenthesis and then
  reads \<^verbatim>\<open>fields[21-1]\<close>: with exactly 20 fields that index is out of range.
\<close>

definition readProcStat :: "linuxHost \<Rightarrow> string \<Rightarrow> procStat result" where
  "readProcStat h base =
     (case ReadFile h (pathJoin base ''stat'') of
        Inl e \<Rightarrow> Err e
      | Inr s \<Rightarrow>
          (case (IndexByte s (CHR ''(''), LastIndexByte s (CHR '')'')) of
             (Some l, Some r) \<Rightarrow>
               if r \<le> l then Err (ErrorString ''malformed /proc/[pid]/stat'')
               else
                 let fields = Fields (TrimSpace (drop (Suc r) s)) in
                 if length fields < 20 then Err (ErrorString ''short /proc/[pid]/stat'')
                 else if length fields \<le> 20 then Panic
                 else
                   Ok \<lparr>ppid = fst (Atoi (fields ! 1)),
                       state = fields ! 0,
                       comm = take (r - Suc l) (drop (Suc l) s),
                       utime = fst (ParseUint (fields ! 12) 64),
                       stime = fst (ParseUint (fields ! 13) 64),
                       starttime = fst (ParseUint (fields ! 20) 64),
                       priority = fst (ParseInt (fields ! 16) 64),
                       nice = fst (ParseInt (fields ! 17) 64),
                       numThreads = fst (ParseInt (fields ! 18) 64),
                       ttyNr = fst (ParseInt (fields ! 5) 64)\<rparr>
           | _ \<Rightarrow> Err (ErrorString ''malformed /proc/[pid]/stat'')))"

text \<open>\<^verbatim>\<open>readStatusMap\<close>: the map of the lines read, and the error. Reading a key that is
  not in a Go map gives the empty string, also when the map is \<^verbatim>\<open>nil\<close>.\<close>

definition statusLine :: "(string \<rightharpoonup> string) \<Rightarrow> string \<Rightarrow> (string \<rightharpoonup> string)" where
  "statusLine m line =
     (case IndexByte line (CHR '':'') of
        Some i \<Rightarrow> m(TrimSpace (take i line) \<mapsto> TrimSpace (drop (Suc i) line))
      | None \<Rightarrow> m)"

definition readStatusMap :: "linuxHost \<Rightarrow> string \<Rightarrow> (string \<rightharpoonup> string) \<times> error option" where
  "readStatusMap h path =
     (case ReadFile h path of
        Inl e \<Rightarrow> (Map.empty, Some e)
      | Inr content \<Rightarrow>
          (foldl statusLine Map.empty (scanLines MaxScanTokenSize content),
           if scanTooLong MaxScanTokenSize content then Some ErrTooLong else None))"

definition mapGet :: "(string \<rightharpoonup> string) \<Rightarrow> string \<Rightarrow> string" where
  "mapGet m k = (case m k of None \<Rightarrow> [] | Some v \<Rightarrow> v)"

definition parseFirstUint :: "string \<Rightarrow> int" where
  "parseFirstUint v0 =
     (let v = TrimSpace v0 in
      if v = [] then 0
      else
        let v1 = (case IndexAny v [CHR 0x09, CHR '' ''] of Some i \<Rightarrow> take i v | None \<Rightarrow> v)
        in fst (ParseUint v1 32))"



text \<open>\<^verbatim>\<open>parseKB\<close>. The error of \<^verbatim>\<open>ParseInt\<close> is dropped, its value kept.\<close>

definition parseKB :: "string \<Rightarrow> int" where
  "parseKB v0 =
     (let v = TrimSpace v0 in
      if v = [] then 0
      else
        let v1 = (case IndexByte v (CHR '' '') of
                    Some i \<Rightarrow> TrimSpace (take i v)
                  | None \<Rightarrow> v)
        in fst (ParseInt v1 64))"

text \<open>Names for the numeric ids: the name of the identity database, or the decimal
  digits of the id when the lookup fails.\<close>

definition lookupUserName :: "linuxHost \<Rightarrow> int \<Rightarrow> string" where
  "lookupUserName h uid =
     (case LookupId h (Itoa uid) of Inr name \<Rightarrow> name | Inl _ \<Rightarrow> Itoa uid)"

definition lookupGroupName :: "linuxHost \<Rightarrow> int \<Rightarrow> string" where
  "lookupGroupName h gid =
     (case LookupGroupId h (Itoa gid) of Inr name \<Rightarrow> name | Inl _ \<Rightarrow> Itoa gid)"

definition readCmdline :: "linuxHost \<Rightarrow> string \<Rightarrow> string" where
  "readCmdline h path =
     (case ReadFile h path of
        Inl _ \<Rightarrow> []
      | Inr b \<Rightarrow>
          if b = [] then []
          else Join (Split (TrimRight b [CHR 0x00]) (CHR 0x00)) '' '')"

definition readLink :: "linuxHost \<Rightarrow> string \<Rightarrow> string" where
  "readLink h path = (case Readlink h path of Inl _ \<Rightarrow> [] | Inr p \<Rightarrow> p)"

definition normalizeState :: "string \<Rightarrow> string" where
  "normalizeState s0 = (let s = TrimSpace s0 in if s = [] then [] else take 1 s)"

definition deriveTTY :: "linuxHost \<Rightarrow> string \<Rightarrow> int \<Rightarrow> string" where
  "deriveTTY h base tty =
     (let link = readLink h (pathJoin (pathJoin base ''fd'') ''0'') in
      if link \<noteq> [] \<and> HasPrefix link ''/dev/'' then TrimPrefix link ''/dev/'' else [])"

definition readNamespaces :: "linuxHost \<Rightarrow> string \<Rightarrow> ProcNamespaces option" where
  "readNamespaces h nsDir =
     (let read = (\<lambda>name. readLink h (pathJoin nsDir name));
          ns = \<lparr>Mnt = read ''mnt'', NsPID = read ''pid'', Net = read ''net'',
                UTS = read ''uts'', IPC = read ''ipc'', NsUser = read ''user'',
                NsCgroup = read ''cgroup''\<rparr>
      in if Mnt ns = [] \<and> NsPID ns = [] \<and> Net ns = [] \<and> UTS ns = [] \<and> IPC ns = []
            \<and> NsUser ns = [] \<and> NsCgroup ns = []
         then None else Some ns)"

text \<open>\<^verbatim>\<open>extractContainerID\<close>: over the segments of the path, the first of the longest
  matches of the pattern.\<close>

fun longestMatch :: "string \<Rightarrow> string list \<Rightarrow> string" where
  "longestMatch best [] = best"
| "longestMatch best (seg # segs) =
     (let m = FindString seg in
      longestMatch (if m \<noteq> [] \<and> length m > length best then m else best) segs)"

definition extractContainerID :: "string \<Rightarrow> string" where
  "extractContainerID path = longestMatch [] (Split path (CHR ''/''))"

text \<open>\<^verbatim>\<open>readCgroups\<close>: the loop over the lines carries \<^verbatim>\<open>all\<close>, \<^verbatim>\<open>primary\<close> and
  \<^verbatim>\<open>cid\<close>.\<close>

definition cgroupLine ::
  "string list \<times> string option \<times> string option \<Rightarrow> string
     \<Rightarrow> string list \<times> string option \<times> string option" where
  "cgroupLine st line =
     (case st of (all, primary, cid) \<Rightarrow>
        (let parts = SplitN line (CHR '':'') 3 in
         if length parts = 3 then
           (let path = parts ! 2 in
            (all @ [path],
             (if primary = None \<and> path \<noteq> [] then Some path else primary),
             (if cid = None then
                (let ident = extractContainerID path in
                 if ident \<noteq> [] then Some ident else cid)
              else cid)))
         else (all, primary, cid)))"

definition readCgroups ::
  "linuxHost \<Rightarrow> string \<Rightarrow> string option \<times> string list option \<times> string option" where
  "readCgroups h path =
     (case ReadFile h path of
        Inl _ \<Rightarrow> (None, None, None)
      | Inr content \<Rightarrow>
          (case foldl cgroupLine ([], None, None) (scanLines MaxScanTokenSize content) of
             (all, primary, cid) \<Rightarrow>
               if length all = 0 then (None, None, cid) else (primary, Some all, cid)))"

definition readSELinuxLabel :: "linuxHost \<Rightarrow> string \<Rightarrow> string option" where
  "readSELinuxLabel h path =
     (case ReadFile h path of
        Inl _ \<Rightarrow> None
      | Inr b \<Rightarrow>
          (let v = TrimSpace b in if v = [] \<or> v = ''kernel'' then None else Some v))"

fun bootTimeLine :: "string list \<Rightarrow> int option" where
  "bootTimeLine [] = None"
| "bootTimeLine (line # ls) =
     (if HasPrefix line ''btime '' \<and> length (Fields line) \<ge> 2
      then Some (fst (ParseInt (Fields line ! 1) 64))
      else bootTimeLine ls)"

definition bootTime :: "linuxHost \<Rightarrow> int \<times> error option" where
  "bootTime h =
     (case ReadFile h ''/proc/stat'' of
        Inl e \<Rightarrow> (0, Some e)
      | Inr content \<Rightarrow>
          (case bootTimeLine (scanLines MaxScanTokenSize content) of
             Some v \<Rightarrow> (v, None)
           | None \<Rightarrow>
               (0, Some (if scanTooLong MaxScanTokenSize content then ErrTooLong else EOF))))"

definition clockTicks :: "linuxHost \<Rightarrow> int" where
  "clockTicks h = (case SysconfClkTck h of Inr v \<Rightarrow> if v > 0 then v else 100 | Inl _ \<Rightarrow> 100)"

text \<open>\<^verbatim>\<open>readOneProcess\<close>. Only \<^verbatim>\<open>readProcStat\<close> can make it fail; the error of
  \<^verbatim>\<open>readStatusMap\<close> is dropped.\<close>

definition readOneProcess :: "linuxHost \<Rightarrow> int \<Rightarrow> int \<Rightarrow> int \<Rightarrow> time \<Rightarrow> Process result" where
  "readOneProcess h pid hz btime now =
     (let base = pathJoin ''/proc'' (Itoa pid) in
      case readProcStat h base of
        Err e \<Rightarrow> Err e
      | Panic \<Rightarrow> Panic
      | Ok st \<Rightarrow>
          (let status = fst (readStatusMap h (pathJoin base ''status''));
               uid = parseFirstUint (mapGet status ''Uid'');
               gid = parseFirstUint (mapGet status ''Gid'');
               start = (if btime > 0 \<and> hz > 0
                        then Unix (add64 btime (quot (wrap64 (starttime st)) hz)) 0
                        else now);
               cg = readCgroups h (pathJoin base ''cgroup'')
           in Ok \<lparr>PID = pid,
                   PPID = ppid st,
                   UID = uid,
                   GID = gid,
                   User = lookupUserName h uid,
                   Group = lookupGroupName h gid,
                   State = normalizeState (state st),
                   TTY = deriveTTY h base (ttyNr st),
                   Comm = comm st,
                   Command = readCmdline h (pathJoin base ''cmdline''),
                   Exe = readLink h (pathJoin base ''exe''),
                   Cwd = readLink h (pathJoin base ''cwd''),
                   MemRSSBytes = mul64 (parseKB (mapGet status ''VmRSS'')) 1024,
                   MemVMSBytes = mul64 (parseKB (mapGet status ''VmSize'')) 1024,
                   MemSwapBytes = mul64 (parseKB (mapGet status ''VmSwap'')) 1024,
                   Threads = Some (numThreads st),
                   Nice = Some (nice st),
                   Priority = Some (priority st),
                   StartTime = FormatRFC3339 start,
                   StartTimeUnixNs = UnixNano start,
                   ElapsedSeconds = Some (Seconds h (Sub now start)),
                   Cgroup = fst cg,
                   Cgroups = fst (snd cg),
                   NS = readNamespaces h (pathJoin base ''ns''),
                   ContainerID = snd (snd cg),
                   SELinuxLabel =
                     readSELinuxLabel h (pathJoin (pathJoin base ''attr'') ''current'')\<rparr>))"

text \<open>\<^verbatim>\<open>collectProcesses\<close> of \<^verbatim>\<open>ps_linux.go\<close>: the loop over the directory entries
  carries \<^verbatim>\<open>procs\<close>. An entry that is not a directory, whose name is not a positive
  number, or whose process cannot be read is passed over.\<close>

fun collectEntries ::
  "linuxHost \<Rightarrow> int \<Rightarrow> int \<Rightarrow> time \<Rightarrow> dirEntry list \<Rightarrow> Process list \<Rightarrow> Process list result" where
  "collectEntries h hz btime now [] procs = Ok procs"
| "collectEntries h hz btime now (e # es) procs =
     (if \<not> entryIsDir e then collectEntries h hz btime now es procs
      else
        (case Atoi (entryName e) of
           (pid, err) \<Rightarrow>
             if err \<noteq> None \<or> pid \<le> 0 then collectEntries h hz btime now es procs
             else
               (case readOneProcess h pid hz btime now of
                  Err _ \<Rightarrow> collectEntries h hz btime now es procs
                | Panic \<Rightarrow> Panic
                | Ok p \<Rightarrow> collectEntries h hz btime now es (procs @ [p]))))"

definition collectProcessesLinux :: "linuxHost \<Rightarrow> Process list result" where
  "collectProcessesLinux h =
     (case ReadDir h ''/proc'' of
        Inl err \<Rightarrow> Err err
      | Inr entries \<Rightarrow>
          collectEntries h (clockTicks h) (fst (bootTime h)) (Now h) entries [])"

subsection \<open>Two machines\<close>

text \<open>
  A machine to run the collector on. \<^verbatim>\<open>/proc\<close> lists three numeric directories: process 1
  has a stat file and a cgroup file and no readable status file, process 42 has no
  readable stat file, and the stat file of process 77 has no closing parenthesis. The
  identity database knows user 0 as \<^verbatim>\<open>root\<close> and knows no group.
\<close>

definition initStat :: string where
  "initStat = ''1 (init) S 0 1 1 0 -1 4194560 100 200 3 4 5 50 60 7 8 20 0 1 0 300 10000''"

definition initCgroup :: string where
  "initCgroup = ''3:cpu:\<newline>2:memory:/kubepods/pod12345678-abcd/0123456789abcdef0123\<newline>0::/docker/ffffffffffffffffffffffff\<newline>noise\<newline>''"

definition exampleHost :: linuxHost where
  "exampleHost =
     \<lparr>ReadDir = (\<lambda>d. if d = ''/proc''
                     then Inr [\<lparr>entryName = ''1'', entryIsDir = True\<rparr>,
                               \<lparr>entryName = ''42'', entryIsDir = True\<rparr>,
                               \<lparr>entryName = ''self'', entryIsDir = True\<rparr>,
                               \<lparr>entryName = ''uptime'', entryIsDir = False\<rparr>,
                               \<lparr>entryName = ''77'', entryIsDir = True\<rparr>]
                     else Inl (OSError ''ENOENT'')),
      ReadFile = (\<lambda>p. if p = ''/proc/1/stat'' then Inr initStat
                      else if p = ''/proc/77/stat'' then Inr ''77 (bad''
                      else if p = ''/proc/1/cgroup'' then Inr initCgroup
                      else if p = ''/proc/stat'' then Inr ''cpu 1 2 3\<newline>btime 1700000000\<newline>''
                      else Inl (OSError ''ENOENT'')),
      Readlink = (\<lambda>p. Inl (OSError ''ENOENT'')),
      LookupId = (\<lambda>i. if i = ''0'' then Inr ''root'' else Inl (UnknownIdError i)),
      LookupGroupId = (\<lambda>i. Inl (UnknownIdError i)),
      SysconfClkTck = Inr 100,
      Now = \<lparr>unixSec = 1700000500, nsec = 0\<rparr>,
      Seconds = (\<lambda>d. quot d 1000000000)\<rparr>"

text \<open>A second machine, where the stat file of process 1 has exactly 20 fields after the
  command name.\<close>

definition shortStatHost :: linuxHost where
  "shortStatHost =
     exampleHost
       \<lparr>ReadDir := (\<lambda>d. Inr [\<lparr>entryName = ''1'', entryIsDir = True\<rparr>,
                              \<lparr>entryName = ''2'', entryIsDir = True\<rparr>]),
        ReadFile := (\<lambda>p. if p = ''/proc/1/stat''
                          then Inr ''1 (a) S 0 1 1 0 -1 4194560 100 200 3 4 5 50 60 7 8 20 0 1 0''
                          else if p = ''/proc/2/stat'' then Inr initStat
                          else Inl (OSError ''ENOENT''))\<rparr>"


section \<open>The macOS collector\<close>

text \<open>\<^verbatim>\<open>parseElapsedToSeconds\<close> of the darwin collector. The day count and the hours fall
  back to 0 on any error of \<^verbatim>\<open>ParseInt\<close>; for the minutes and the seconds the error is
  dropped and the value \<^verbatim>\<open>ParseInt\<close> returns is used.\<close>

definition parseElapsedToSeconds :: "string \<Rightarrow> int" where
  "parseElapsedToSeconds s0 =
     (let s = TrimSpace s0 in
      if s = [] then 0
      else
        let (days, s1) =
              (case IndexByte s (CHR ''-'') of
                 Some i \<Rightarrow>
                   ((case ParseInt (take i s) 64 of (d, None) \<Rightarrow> d | (_, Some _) \<Rightarrow> 0),
                    drop (Suc i) s)
               | None \<Rightarrow> (0, s));
            parts = Split s1 (CHR '':'')
        in
          if length parts < 2 \<or> length parts > 3 then 0
          else
            let (h, m, sec) =
                  (if length parts = 3 then
                     ((case ParseInt (parts ! 0) 64 of (v, None) \<Rightarrow> v | (_, Some _) \<Rightarrow> 0),
                      fst (ParseInt (parts ! 1) 64),
                      fst (ParseInt (parts ! 2) 64))
                   else
                     (0, fst (ParseInt (parts ! 0) 64), fst (ParseInt (parts ! 1) 64)))
            in add64 (add64 (add64 (mul64 days 86400) (mul64 h 3600)) (mul64 m 60)) sec)"

text \<open>
  What the macOS collector reads of the machine: the output of
  \<^verbatim>\<open>ps axo pid=,ppid=,uid=,rgid=,user=,rgroup=,state=,tt=,comm=,time=,rss=,vsz=,nice=,pri=,etime=,command=\<close>,
  or the error of running it, and the clock.
\<close>

record darwinHost =
  PsOutput :: "error + string"
  DarwinNow :: time

definition firstStateRune :: "string \<Rightarrow> string" where
  "firstStateRune state0 = (let s = TrimSpace state0 in if s = [] then [] else take 1 s)"

text \<open>The body of the loop of \<^verbatim>\<open>collectProcesses\<close> for one line of the output: no
  record for an empty line or a line of fewer than 15 fields, and otherwise a record
  whose columns are read without a check. Only the scanner's buffer is set by the
  program, to 1 MiB.\<close>

definition darwinRecord :: "time \<Rightarrow> string \<Rightarrow> Process option" where
  "darwinRecord now text =
     (let line = TrimSpace text in
      if line = [] then None
      else
        let fields = Fields line in
        if length fields < 15 then None
        else
          let tty = fields ! 7;
              elapsed = parseElapsedToSeconds (fields ! 14);
              start = Add now (mul64 (wrap64 (- elapsed)) 1000000000)
          in Some \<lparr>PID = fst (Atoi (fields ! 0)),
                     PPID = fst (Atoi (fields ! 1)),
                     UID = fst (ParseUint (fields ! 2) 32),
                     GID = fst (ParseUint (fields ! 3) 32),
                     User = fields ! 4,
                     Group = fields ! 5,
                     State = firstStateRune (fields ! 6),
                     TTY = (if tty = ''??'' \<or> tty = ''-'' then [] else tty),
                     Comm = fields ! 8,
                     Command = Join (drop 15 fields) '' '',
                     Exe = [],
                     Cwd = [],
                     MemRSSBytes = mul64 (fst (ParseInt (fields ! 10) 64)) 1024,
                     MemVMSBytes = mul64 (fst (ParseInt (fields ! 11) 64)) 1024,
                     MemSwapBytes = 0,
                     Threads = None,
                     Nice = Some (fst (Atoi (fields ! 12))),
                     Priority = Some (fst (Atoi (fields ! 13))),
                     StartTime = FormatRFC3339 start,
                     StartTimeUnixNs = UnixNano start,
                     ElapsedSeconds = Some elapsed,
                     Cgroup = None,
                     Cgroups = None,
                     NS = None,
                     ContainerID = None,
                     SELinuxLabel = None\<rparr>)"

fun collectLines :: "time \<Rightarrow> string list \<Rightarrow> Process list \<Rightarrow> Process list" where
  "collectLines now [] procs = procs"
| "collectLines now (text # rest) procs =
     (case darwinRecord now text of
        None \<Rightarrow> collectLines now rest procs
      | Some p \<Rightarrow> collectLines now rest (procs @ [p]))"

definition collectProcessesDarwin :: "darwinHost \<Rightarrow> Process list result" where
  "collectProcessesDarwin h =
     (case PsOutput h of
        Inl err \<Rightarrow> Err err
      | Inr out \<Rightarrow>
          if scanTooLong 1048576 out then Err ErrTooLong
          else Ok (collectLines (DarwinNow h) (scanLines 1048576 out) []))"

section \<open>The Windows collector\<close>

text \<open>
  What the collector reads of the machine: the output of the PowerShell query, or the
  error of running it, the JSON decoder, the clock, and \<^verbatim>\<open>int64(d.Seconds())\<close> as for
  Linux. The decoder is a field of the machine, so that the properties below hold for
  whatever \<^verbatim>\<open>Decode\<close> does; \<^const>\<open>jsonDecode\<close> is there to run examples.
\<close>

record windowsHost =
  PowerShellOutput :: "error + string"
  Decode :: "string \<Rightarrow> error + json"
  WindowsNow :: time
  WindowsSeconds :: "int \<Rightarrow> int"

text \<open>\<^verbatim>\<open>sanitizeJSON\<close>: the loop over the scanned lines carries \<^verbatim>\<open>useful\<close>.\<close>

fun sanitizeLines :: "string list \<Rightarrow> string list \<Rightarrow> string list" where
  "sanitizeLines [] useful = useful"
| "sanitizeLines (text # rest) useful =
     (let line = TrimSpace text in
      if line = [] then sanitizeLines rest useful
      else if HasPrefix line ''{'' \<or> HasPrefix line ''['' then sanitizeLines rest (useful @ [line])
      else sanitizeLines rest useful)"

definition sanitizeJSON :: "string \<Rightarrow> string" where
  "sanitizeJSON b = Join (sanitizeLines (scanLines MaxScanTokenSize b) []) [CHR 0x0A]"

text \<open>The two decoding steps of \<^verbatim>\<open>collectProcesses\<close>: \<^verbatim>\<open>raw\<close>, or the error returned.\<close>

definition decodeOutput :: "(string \<Rightarrow> error + json) \<Rightarrow> string \<Rightarrow> error + json" where
  "decodeOutput dec out =
     (case dec out of
        Inr raw \<Rightarrow> Inr raw
      | Inl err \<Rightarrow>
          (case dec (sanitizeJSON out) of
             Inr raw \<Rightarrow> Inr raw
           | Inl err2 \<Rightarrow> Inl err))"

definition toSliceOfMaps :: "json \<Rightarrow> (string \<times> json) list list" where
  "toSliceOfMaps v =
     (case v of
        JArray t \<Rightarrow> List.map_filter (\<lambda>e. case e of JObject m \<Rightarrow> Some m | _ \<Rightarrow> None) t
      | JObject t \<Rightarrow> [t]
      | _ \<Rightarrow> [])"

text \<open>The typed readers of a row. Their \<^verbatim>\<open>float64\<close> cases are not reached, the decoder
  being set to \<^verbatim>\<open>UseNumber\<close>.\<close>

definition getString :: "(string \<times> json) list \<Rightarrow> string \<Rightarrow> string" where
  "getString m k =
     (case objGet m k of
        Some (JString t) \<Rightarrow> t
      | Some (JNumber t) \<Rightarrow> t
      | _ \<Rightarrow> [])"

definition getInt64 :: "(string \<times> json) list \<Rightarrow> string \<Rightarrow> int" where
  "getInt64 m k =
     (case objGet m k of
        Some (JNumber t) \<Rightarrow> (case ParseInt t 64 of (i, None) \<Rightarrow> i | (_, Some _) \<Rightarrow> 0)
      | Some (JString t) \<Rightarrow>
          (case ParseInt (TrimSpace t) 64 of (i, None) \<Rightarrow> i | (_, Some _) \<Rightarrow> 0)
      | _ \<Rightarrow> 0)"

definition getUint64 :: "(string \<times> json) list \<Rightarrow> string \<Rightarrow> int" where
  "getUint64 m k = (if getInt64 m k > 0 then getInt64 m k else 0)"

definition utcRFC3339 :: "time \<Rightarrow> string" where
  "utcRFC3339 t = (if IsZero t then [] else FormatRFC3339 t)"

text \<open>\<^verbatim>\<open>s[i:j]\<close> for \<open>i \<le> j \<le> len(s)\<close>.\<close>

definition slice :: "string \<Rightarrow> nat \<Rightarrow> nat \<Rightarrow> string" where
  "slice s i j = take (j - i) (drop i s)"

text \<open>The two loops of \<^verbatim>\<open>parseCIMDateTime\<close> on the fraction: the value of the leading
  digits, six at most, and the padding, which counts the digits of that value.\<close>

fun usecDigits :: "int \<Rightarrow> string \<Rightarrow> int" where
  "usecDigits usec [] = usec"
| "usecDigits usec (c # cs) = usecDigits (usec * 10 + digitVal c) cs"

function padUsec :: "nat \<Rightarrow> int \<Rightarrow> int" where
  "padUsec l usec = (if l < 6 then padUsec (Suc l) (usec * 10) else usec)"
  by pat_completeness auto
termination
  by (relation "measure (\<lambda>(l, usec). 6 - l)") auto

declare padUsec.simps [simp del]

definition parseCIMDateTime :: "string \<Rightarrow> time \<times> bool" where
  "parseCIMDateTime s0 =
     (let s1 = TrimSpace s0 in
      if s1 = [] then (zeroTime, False)
      else
        let s = ReplaceAll s1 (CHR ''T'') in
        if length s < 14 then (zeroTime, False)
        else
          let y = fst (Atoi (slice s 0 4));
              mo = fst (Atoi (slice s 4 6));
              d = fst (Atoi (slice s 6 8));
              h = fst (Atoi (slice s 8 10));
              mi = fst (Atoi (slice s 10 12));
              se = fst (Atoi (slice s 12 14));
              rem0 = drop 14 s;
              usec = (if HasPrefix rem0 ''.''
                      then (let u = usecDigits 0 (takeWhile isDigit (take 6 (drop 1 rem0)))
                            in padUsec (length (Itoa u)) u)
                      else 0);
              rem1 = (if HasPrefix rem0 ''.'' then dropWhile isDigit (drop 1 rem0) else rem0);
              offsetMin =
                (if length rem1 \<ge> 4 \<and> (hd rem1 = CHR ''+'' \<or> hd rem1 = CHR ''-'') then
                   (case Atoi (slice rem1 1 4) of
                      (v, None) \<Rightarrow> (if hd rem1 = CHR ''-'' then - 1 else 1) * v
                    | (_, Some _) \<Rightarrow> 0)
                 else 0)
          in (Date y mo d h mi se (usec * 1000) (- offsetMin * 60), True))"

text \<open>The body of the loop of \<^verbatim>\<open>collectProcesses\<close> for one row: no record for a row
  whose process id is not positive.\<close>

definition windowsRecord :: "time \<Rightarrow> (int \<Rightarrow> int) \<Rightarrow> (string \<times> json) list \<Rightarrow> Process option" where
  "windowsRecord now seconds m =
     (let pid = getInt64 m ''ProcessId'' in
      if pid \<le> 0 then None
      else
        let cd = getString m ''CreationDate'';
            start = (if cd \<noteq> [] then
                       (case parseCIMDateTime cd of (t, True) \<Rightarrow> t | (_, False) \<Rightarrow> zeroTime)
                     else zeroTime);
            elapsedI64 = (if \<not> IsZero start then seconds (Sub now start) else 0)
        in Some \<lparr>PID = pid,
                   PPID = getInt64 m ''ParentProcessId'',
                   UID = 0,
                   GID = 0,
                   User = getString m ''User'',
                   Group = [],
                   State = [],
                   TTY = [],
                   Comm = getString m ''Name'',
                   Command = getString m ''CommandLine'',
                   Exe = getString m ''ExecutablePath'',
                   Cwd = [],
                   MemRSSBytes = getInt64 m ''WorkingSetSize'',
                   MemVMSBytes = getInt64 m ''VirtualSize'',
                   MemSwapBytes = 0,
                   Threads = Some (getInt64 m ''ThreadCount''),
                   Nice = None,
                   Priority = Some (getInt64 m ''Priority''),
                   StartTime = utcRFC3339 start,
                   StartTimeUnixNs = UnixNano start,
                   ElapsedSeconds = Some elapsedI64,
                   Cgroup = None,
                   Cgroups = None,
                   NS = None,
                   ContainerID = None,
                   SELinuxLabel = None\<rparr>)"

fun collectRows ::
  "time \<Rightarrow> (int \<Rightarrow> int) \<Rightarrow> (string \<times> json) list list \<Rightarrow> Process list \<Rightarrow> Process list" where
  "collectRows now seconds [] procs = procs"
| "collectRows now seconds (m # rows) procs =
     (case windowsRecord now seconds m of
        None \<Rightarrow> collectRows now seconds rows procs
      | Some p \<Rightarrow> collectRows now seconds rows (procs @ [p]))"

definition collectProcessesWindows :: "windowsHost \<Rightarrow> Process list result" where
  "collectProcessesWindows h =
     (case PowerShellOutput h of
        Inl _ \<Rightarrow>
          Err (ErrorString ''failed to query processes via PowerShell CIM; ensure PowerShell is available and ExecutionPolicy allows running inline commands'')
      | Inr out \<Rightarrow>
          (case decodeOutput (Decode h) out of
             Inl err \<Rightarrow> Err err
           | Inr raw \<Rightarrow>
               Ok (collectRows (WindowsNow h) (WindowsSeconds h) (toSliceOfMaps raw) [])))"

section \<open>The specification's notions\<close>







text \<open>
  The cgroup file in the words of the specification: a line of the form
  \<^verbatim>\<open>id:controller-list:path\<close> has two colons at least, and its path is what follows the
  second one. The lines are those the scanner delivers.
\<close>

definition cgroupPath :: "string \<Rightarrow> string option" where
  "cgroupPath line =
     (case IndexByte line (CHR '':'') of
        None \<Rightarrow> None
      | Some i \<Rightarrow>
          (case IndexByte (drop (Suc i) line) (CHR '':'') of
             None \<Rightarrow> None
           | Some j \<Rightarrow> Some (drop (Suc j) (drop (Suc i) line))))"




text \<open>The directory entry of a process: a directory whose name \<^verbatim>\<open>Atoi\<close> reads as a
  positive number.\<close>

definition entryPid :: "dirEntry \<Rightarrow> int option" where
  "entryPid e =
     (if entryIsDir e then
        (case Atoi (entryName e) of
           (pid, None) \<Rightarrow> if pid > 0 then Some pid else None
         | (_, Some _) \<Rightarrow> None)
      else None)"

definition readEntry :: "linuxHost \<Rightarrow> int \<Rightarrow> int \<Rightarrow> time \<Rightarrow> dirEntry \<Rightarrow> Process option" where
  "readEntry h hz btime now e =
     (case entryPid e of
        None \<Rightarrow> None
      | Some pid \<Rightarrow> (case readOneProcess h pid hz btime now of Ok p \<Rightarrow> Some p | _ \<Rightarrow> None))"

definition entryPanics :: "linuxHost \<Rightarrow> int \<Rightarrow> int \<Rightarrow> time \<Rightarrow> dirEntry \<Rightarrow> bool" where
  "entryPanics h hz btime now e =
     (case entryPid e of
        None \<Rightarrow> False
      | Some pid \<Rightarrow> readOneProcess h pid hz btime now = Panic)"

section \<open>Properties of the library functions\<close>




lemma Split_nonempty: "Split s c \<noteq> []"
  by (induction s) (auto split: list.splits)

lemmas eval_strings =
  TrimSpace_def ParseInt_def ParseUint_def Atoi_def isDigit_def digitVal_def
  space1_def space2_def space3_def HasPrefix_def

lemma digitChar_digit: "d < 10 \<Longrightarrow> isDigit (digitChar d) \<and> digitVal (digitChar d) = int d"
proof -
  assume "d < 10"
  then have "d \<in> {0, 1, 2, 3, 4, 5, 6, 7, 8, 9}" by auto
  then show ?thesis
    by (auto simp: digitChar_def isDigit_def digitVal_def)
qed

lemma parseUintFrom_snoc:
  "parseUintFrom mx a xs = (v, None) \<Longrightarrow> isDigit c \<Longrightarrow> v * 10 + digitVal c \<le> mx
    \<Longrightarrow> parseUintFrom mx a (xs @ [c]) = (v * 10 + digitVal c, None)"
  by (induction xs arbitrary: a) (auto split: if_splits)

lemma parseUintFrom_decimal:
  "int n \<le> mx \<Longrightarrow> parseUintFrom mx 0 (decimal n) = (int n, None)"
proof (induction n rule: decimal.induct)
  case (1 n)
  show ?case
  proof (cases "n < 10")
    case True
    with 1(2) digitChar_digit [of n] show ?thesis
      by (simp add: decimal.simps [of n])
  next
    case False
    have small: "int (n div 10) \<le> mx" using 1(2) by linarith
    have d: "isDigit (digitChar (n mod 10))" "digitVal (digitChar (n mod 10)) = int (n mod 10)"
      using digitChar_digit [of "n mod 10"] by simp_all
    have "int (n div 10) * 10 + int (n mod 10) = int n"
      by (metis mult.commute of_nat_add of_nat_mult of_nat_numeral div_mult_mod_eq mult.commute)
    with 1(1) [OF False small] d 1(2) False show ?thesis
      by (simp add: decimal.simps [of n] parseUintFrom_snoc)
  qed
qed

lemma decimal_nonempty: "decimal n \<noteq> []"
  by (subst decimal.simps) simp

lemma Itoa_nonempty: "Itoa i \<noteq> []"
  by (simp add: Itoa_def decimal_nonempty)

lemma ParseUint_Itoa:
  "0 \<le> i \<Longrightarrow> i < 2 ^ b \<Longrightarrow> ParseUint (Itoa i) b = (i, None)"
  using parseUintFrom_decimal [of "nat i" "2 ^ b - 1"]
  by (simp add: ParseUint_def Itoa_def decimal_nonempty)


lemma IndexByte_Some:
  "IndexByte s c = Some i \<Longrightarrow> s = take i s @ c # drop (Suc i) s \<and> c \<notin> set (take i s)"
  by (induction s arbitrary: i) (auto split: if_splits)

lemma IndexByte_append: "c \<notin> set a \<Longrightarrow> IndexByte (a @ c # r) c = Some (length a)"
  by (induction a) auto

lemma scanLines_all:
  "\<forall>l \<in> set (rawLines s). length l < maxTok \<Longrightarrow> scanLines maxTok s = map dropCR (rawLines s)"
  by (simp add: scanLines_def takeWhile_eq_all_conv [THEN iffD2])


lemmas eval_linux =
  exampleHost_def initStat_def initCgroup_def collectProcessesLinux_def readOneProcess_def
  readProcStat_def readStatusMap_def readCgroups_def readNamespaces_def readSELinuxLabel_def
  readCmdline_def readLink_def deriveTTY_def lookupUserName_def lookupGroupName_def
  parseFirstUint_def parseKB_def mapGet_def bootTime_def clockTicks_def pathJoin_def
  normalizeState_def Itoa_def decimal.simps digitChar_def LastIndexByte_def Fields_def
  scanLines_def scanTooLong_def rawLines_def dropCR_def MaxScanTokenSize_def
  cgroupLine_def extractContainerID_def isHex_def numeral_3_eq_3 Let_def

section \<open>Kilobytes to bytes\<close>

text \<open>
  Claim C2, as the code has it. The memory figures of the Linux collector are
  \<^verbatim>\<open>parseKB(status[...]) * 1024\<close> in \<^verbatim>\<open>int64\<close> arithmetic. For the status value
  \<^verbatim>\<open>12345 kB\<close> the parser yields 12345 and the product is 12,641,280 bytes.
\<close>

theorem parseKB_kilobytes_to_bytes:
  "parseKB ''12345 kB'' = 12345 \<and> mul64 (parseKB ''12345 kB'') 1024 = 12641280"
  by (simp add: parseKB_def eval_strings mul64_def wrap64_def)

text \<open>The figure of the claim as written, 12,645,120, is not 12345 * 1024, and the
  conversion does not yield it.\<close>

theorem parseKB_kilobytes_not_12645120:
  "mul64 (parseKB ''12345 kB'') 1024 \<noteq> 12645120"
  by (simp add: parseKB_def eval_strings mul64_def wrap64_def)

section \<open>The duration grammar\<close>







text \<open>
  Outside the theorem above: the errors of the minutes and the seconds are dropped, not
  replaced by zero as for the hours and the days, so a number too large for 64 bits is
  read as the largest \<^verbatim>\<open>int64\<close>.
\<close>

lemma parseElapsedToSeconds_seconds_clamped:
  "parseElapsedToSeconds ''00:99999999999999999999'' = 9223372036854775807
   \<and> parseElapsedToSeconds ''99999999999999999999:00:01'' = 1"
  by (simp add: parseElapsedToSeconds_def eval_strings add64_def mul64_def wrap64_def)

section \<open>Names for numeric ids\<close>

text \<open>
  Claim C9. For every uid and gid (32-bit unsigned numbers), when the lookup in the
  identity database fails, \<^verbatim>\<open>lookupUserName\<close> and \<^verbatim>\<open>lookupGroupName\<close> return the
  decimal string of the id: it is what \<^verbatim>\<open>strconv.Itoa\<close> prints, it is not empty, and
  reading it back as a decimal number gives the id. Both functions return a string on
  every input, so a failed lookup cannot abort the record.
\<close>

theorem lookup_failure_falls_back:
  assumes "0 \<le> uid" "uid < 2 ^ 32" "0 \<le> gid" "gid < 2 ^ 32"
    and "LookupId h (Itoa uid) = Inl e1" "LookupGroupId h (Itoa gid) = Inl e2"
  shows "lookupUserName h uid = Itoa uid \<and> lookupGroupName h gid = Itoa gid
    \<and> lookupUserName h uid \<noteq> [] \<and> lookupGroupName h gid \<noteq> []
    \<and> ParseUint (lookupUserName h uid) 32 = (uid, None)
    \<and> ParseUint (lookupGroupName h gid) 32 = (gid, None)"
  using assms by (simp add: lookupUserName_def lookupGroupName_def Itoa_nonempty ParseUint_Itoa)

text \<open>The theorem on the first machine, for user 1000 and group 100, which its identity
  database does not know.\<close>

theorem lookup_failure_falls_back_witness:
  "LookupId exampleHost (Itoa 1000) = Inl (UnknownIdError ''1000'')
   \<and> LookupGroupId exampleHost (Itoa 100) = Inl (UnknownIdError ''100'')
   \<and> lookupUserName exampleHost 1000 = ''1000''
   \<and> lookupGroupName exampleHost 100 = ''100''"
proof -
  have i: "Itoa 1000 = ''1000''" "Itoa 100 = ''100''"
    by (simp_all add: Itoa_def decimal.simps digitChar_def)
  have u: "LookupId exampleHost (Itoa 1000) = Inl (UnknownIdError ''1000'')"
    and g: "LookupGroupId exampleHost (Itoa 100) = Inl (UnknownIdError ''100'')"
    by (simp_all add: i exampleHost_def)
  from lookup_failure_falls_back [OF _ _ _ _ u g] i u g show ?thesis by simp
qed

section \<open>Control groups\<close>

lemma cgroupPath_form:
  "cgroupPath line = Some p \<longleftrightarrow>
     (\<exists>a b. line = a @ '':'' @ b @ '':'' @ p \<and> CHR '':'' \<notin> set a \<and> CHR '':'' \<notin> set b)"
proof
  assume "cgroupPath line = Some p"
  then obtain i j where i: "IndexByte line (CHR '':'') = Some i"
    and j: "IndexByte (drop (Suc i) line) (CHR '':'') = Some j"
    and p: "p = drop (Suc j) (drop (Suc i) line)"
    by (auto simp: cgroupPath_def split: option.splits)
  from IndexByte_Some [OF i] IndexByte_Some [OF j] p
  have "line = take i line @ '':'' @ take j (drop (Suc i) line) @ '':'' @ p"
    "CHR '':'' \<notin> set (take i line)" "CHR '':'' \<notin> set (take j (drop (Suc i) line))"
    by auto
  then show "\<exists>a b. line = a @ '':'' @ b @ '':'' @ p \<and> CHR '':'' \<notin> set a \<and> CHR '':'' \<notin> set b"
    by blast
next
  assume "\<exists>a b. line = a @ '':'' @ b @ '':'' @ p \<and> CHR '':'' \<notin> set a \<and> CHR '':'' \<notin> set b"
  then obtain a b where "line = a @ '':'' @ b @ '':'' @ p" "CHR '':'' \<notin> set a" "CHR '':'' \<notin> set b"
    by blast
  then show "cgroupPath line = Some p"
    by (simp add: cgroupPath_def IndexByte_append)
qed









section \<open>Reading one process and collecting all of them\<close>

lemma readOneProcess_Ok:
  assumes "readProcStat h (pathJoin ''/proc'' (Itoa pid)) = Ok st"
  shows "\<exists>p. readOneProcess h pid hz btime now = Ok p \<and> PID p = pid
       \<and> User p = lookupUserName h (UID p) \<and> Group p = lookupGroupName h (GID p)"
  using assms by (simp add: readOneProcess_def Let_def)

lemma readOneProcess_not_Ok:
  "readProcStat h (pathJoin ''/proc'' (Itoa pid)) = Err e
     \<Longrightarrow> readOneProcess h pid hz btime now = Err e"
  "readProcStat h (pathJoin ''/proc'' (Itoa pid)) = Panic
     \<Longrightarrow> readOneProcess h pid hz btime now = Panic"
  by (simp_all add: readOneProcess_def Let_def)

lemma readOneProcess_PID: "readOneProcess h pid hz btime now = Ok p \<Longrightarrow> PID p = pid"
  by (cases "readProcStat h (pathJoin ''/proc'' (Itoa pid))")
    (auto simp: readOneProcess_def Let_def)

lemma collectEntries_step:
  "collectEntries h hz btime now (e # es) procs =
     (if entryPanics h hz btime now e then Panic
      else collectEntries h hz btime now es
             (procs @ (case readEntry h hz btime now e of None \<Rightarrow> [] | Some p \<Rightarrow> [p])))"
  by (cases "Atoi (entryName e)"; cases "readOneProcess h (fst (Atoi (entryName e))) hz btime now")
    (auto simp: entryPanics_def readEntry_def entryPid_def split: option.splits)

lemma collectEntries_spec:
  "collectEntries h hz btime now es procs =
     (if list_ex (entryPanics h hz btime now) es then Panic
      else Ok (procs @ List.map_filter (readEntry h hz btime now) es))"
proof (induction es arbitrary: procs)
  case Nil
  show ?case by (simp add: List.map_filter_simps)
next
  case (Cons e es)
  show ?case
    unfolding collectEntries_step Cons.IH
    by (simp add: List.map_filter_simps split: option.splits)
qed

lemma Itoa_0: "Itoa 0 = ''0''"
  by (simp add: Itoa_def decimal.simps digitChar_def)

lemma example_collect:
  "map_result (map PID) (collectProcessesLinux exampleHost) = Ok [1]"
  by (simp add: eval_linux eval_strings)

text \<open>
  Claim C10, as the code has it. When the stat file of a process parses and its status
  file cannot be read, \<^verbatim>\<open>readOneProcess\<close> returns a record, with uid and gid 0 and the three
  memory figures 0. The user and group are the names of id 0: what the identity database
  has for \<^verbatim>\<open>0\<close>, and the string \<^verbatim>\<open>0\<close> only when that lookup fails.
\<close>

theorem status_unreadable_record:
  assumes "readProcStat h (pathJoin ''/proc'' (Itoa pid)) = Ok st"
    and "ReadFile h (pathJoin (pathJoin ''/proc'' (Itoa pid)) ''status'') = Inl e"
  shows "\<exists>p. readOneProcess h pid hz btime now = Ok p
     \<and> UID p = 0 \<and> GID p = 0
     \<and> User p = (case LookupId h ''0'' of Inr name \<Rightarrow> name | Inl _ \<Rightarrow> ''0'')
     \<and> Group p = (case LookupGroupId h ''0'' of Inr name \<Rightarrow> name | Inl _ \<Rightarrow> ''0'')
     \<and> MemRSSBytes p = 0 \<and> MemVMSBytes p = 0 \<and> MemSwapBytes p = 0"
  using assms
  by (simp add: readOneProcess_def Let_def readStatusMap_def mapGet_def parseFirstUint_def
      parseKB_def TrimSpace_def mul64_def wrap64_def lookupUserName_def lookupGroupName_def
      Itoa_0 split: sum.splits)

text \<open>The theorem on process 1 of the first machine.\<close>

theorem status_unreadable_record_witness:
  "readProcStat exampleHost (pathJoin ''/proc'' (Itoa 1))
     = Ok \<lparr>ppid = 0, state = ''S'', comm = ''init'', utime = 50, stime = 60,
           starttime = 300, priority = 20, nice = 0, numThreads = 1, ttyNr = - 1\<rparr>
   \<and> ReadFile exampleHost (pathJoin (pathJoin ''/proc'' (Itoa 1)) ''status'')
       = Inl (OSError ''ENOENT'')
   \<and> map_result (\<lambda>p. (UID p, GID p, User p, Group p, MemRSSBytes p, MemVMSBytes p, MemSwapBytes p))
        (readOneProcess exampleHost 1 100 1700000000 (Now exampleHost))
       = Ok (0, 0, ''root'', ''0'', 0, 0, 0)"
proof -
  have st: "readProcStat exampleHost (pathJoin ''/proc'' (Itoa 1))
     = Ok \<lparr>ppid = 0, state = ''S'', comm = ''init'', utime = 50, stime = 60,
           starttime = 300, priority = 20, nice = 0, numThreads = 1, ttyNr = - 1\<rparr>"
    by (simp add: eval_linux eval_strings)
  have rf: "ReadFile exampleHost (pathJoin (pathJoin ''/proc'' (Itoa 1)) ''status'')
       = Inl (OSError ''ENOENT'')"
    by (simp add: eval_linux)
  from status_unreadable_record [OF st rf, of 100 1700000000 "Now exampleHost"]
  obtain p where p: "readOneProcess exampleHost 1 100 1700000000 (Now exampleHost) = Ok p"
    "UID p = 0" "GID p = 0"
    "User p = (case LookupId exampleHost ''0'' of Inr name \<Rightarrow> name | Inl _ \<Rightarrow> ''0'')"
    "Group p = (case LookupGroupId exampleHost ''0'' of Inr name \<Rightarrow> name | Inl _ \<Rightarrow> ''0'')"
    "MemRSSBytes p = 0" "MemVMSBytes p = 0" "MemSwapBytes p = 0"
    by blast
  from p have "map_result (\<lambda>p. (UID p, GID p, User p, Group p, MemRSSBytes p, MemVMSBytes p, MemSwapBytes p))
        (readOneProcess exampleHost 1 100 1700000000 (Now exampleHost))
       = Ok (0, 0, ''root'', ''0'', 0, 0, 0)"
    by (simp add: exampleHost_def)
  with st rf show ?thesis by blast
qed

text \<open>
  The claim as written has the user name \<^verbatim>\<open>0\<close> there. On the first machine the database
  knows user 0, and the record of process 1, whose status file is unreadable, belongs to
  \<^verbatim>\<open>root\<close>.
\<close>

theorem status_unreadable_user_is_root:
  "map_result User (readOneProcess exampleHost 1 100 1700000000 (Now exampleHost)) = Ok ''root''
   \<and> map_result User (readOneProcess exampleHost 1 100 1700000000 (Now exampleHost)) \<noteq> Ok ''0''"
  by (simp add: eval_linux eval_strings)

text \<open>
  Claim C6 at the second machine. The directory is listed, the stat file of process 1 is
  read and is too short for the start time. The collector neither skips process 1 nor
  returns the record of process 2: reading \<^verbatim>\<open>fields[20]\<close> of 20 fields panics.
\<close>

theorem short_stat_panics:
  "collectProcessesLinux shortStatHost = Panic"
  by (simp add: shortStatHost_def eval_linux eval_strings)

end
